theory Spec2Isabelle
  imports Main
begin

unbundle bit_operations_syntax

section \<open>The 8-bit ALU engine (class ALU of src/alu_simulator.py)\<close>

text \<open>
  Python integers are unbounded, so operands, opcodes, results and flag values are
  \<open>int\<close>; \<open>&\<close>, \<open>|\<close>, \<open>^\<close>, \<open>~\<close> are the two's-complement bit operations of
  \<open>int\<close>, and \<open>x >> 7\<close> is \<open>drop_bit 7 x\<close>. The flag dictionary is a map from the flag's
  name to its value (0 or 1). The object's two attributes form the state, which every
  method that mutates \<open>self\<close> takes and returns.
\<close>

type_synonym flagset = "string \<rightharpoonup> int"

record alu =
  result :: int
  flags :: flagset

text \<open>The only exception of the engine; it carries the offending opcode, which is all
  that its message is built from.\<close>

datatype error = ValueError int

definition OP_ADD :: int where "OP_ADD = 0"
definition OP_SUB :: int where "OP_SUB = 1"
definition OP_AND :: int where "OP_AND = 2"
definition OP_OR :: int where "OP_OR = 3"
definition OP_XOR :: int where "OP_XOR = 4"
definition OP_NOT :: int where "OP_NOT = 5"

text \<open>The dictionary literal \<open>{'Z': 0, 'N': 0, 'C': 0, 'V': 0}\<close>.\<close>

definition cleared_flags :: flagset where
  "cleared_flags = [''Z'' \<mapsto> 0, ''N'' \<mapsto> 0, ''C'' \<mapsto> 0, ''V'' \<mapsto> 0]"

text \<open>\<open>__init__\<close>\<close>

definition ALU_init :: alu where
  "ALU_init = \<lparr>result = 0, flags = cleared_flags\<rparr>"

text \<open>\<open>_add\<close>: the raw sum sets Carry when it exceeds 255, then is cut to 8 bits.\<close>

definition ALU_add :: "alu \<Rightarrow> int \<Rightarrow> int \<Rightarrow> int \<times> alu" where
  "ALU_add self a b =
     (let res = a + b;
          self1 = (if res > 255 then self\<lparr>flags := (flags self)(''C'' \<mapsto> 1)\<rparr> else self)
      in (res AND 255, self1))"

text \<open>\<open>_sub\<close>: the raw difference sets Carry when it is negative, then is cut to 8 bits.\<close>

definition ALU_sub :: "alu \<Rightarrow> int \<Rightarrow> int \<Rightarrow> int \<times> alu" where
  "ALU_sub self a b =
     (let res = a - b;
          self1 = (if res < 0 then self\<lparr>flags := (flags self)(''C'' \<mapsto> 1)\<rparr> else self)
      in (res AND 255, self1))"

text \<open>\<open>_and\<close>, \<open>_or\<close>, \<open>_xor\<close>, \<open>_not\<close> do not touch \<open>self\<close>.\<close>

definition ALU_and :: "int \<Rightarrow> int \<Rightarrow> int" where
  "ALU_and a b = (a AND b) AND 255"

definition ALU_or :: "int \<Rightarrow> int \<Rightarrow> int" where
  "ALU_or a b = (a OR b) AND 255"

definition ALU_xor :: "int \<Rightarrow> int \<Rightarrow> int" where
  "ALU_xor a b = (a XOR b) AND 255"

definition ALU_not :: "int \<Rightarrow> int" where
  "ALU_not a = (NOT a) AND 255"

text \<open>\<open>_calculate_overflow_add\<close>\<close>

definition ALU_calculate_overflow_add :: "alu \<Rightarrow> int \<Rightarrow> int \<Rightarrow> alu" where
  "ALU_calculate_overflow_add self a b =
     (let sign_a = drop_bit 7 (a AND 128);
          sign_b = drop_bit 7 (b AND 128);
          sign_result = drop_bit 7 (result self AND 128)
      in if sign_a = sign_b \<and> sign_a \<noteq> sign_result
         then self\<lparr>flags := (flags self)(''V'' \<mapsto> 1)\<rparr> else self)"

text \<open>\<open>_calculate_overflow_sub\<close>\<close>

definition ALU_calculate_overflow_sub :: "alu \<Rightarrow> int \<Rightarrow> int \<Rightarrow> alu" where
  "ALU_calculate_overflow_sub self a b =
     (let sign_a = drop_bit 7 (a AND 128);
          sign_b = drop_bit 7 (b AND 128);
          sign_result = drop_bit 7 (result self AND 128)
      in if sign_a \<noteq> sign_b \<and> sign_a \<noteq> sign_result
         then self\<lparr>flags := (flags self)(''V'' \<mapsto> 1)\<rparr> else self)"

text \<open>\<open>_calculate_flags\<close>: Z and N from the stored result, then V for ADD and SUB only.\<close>

definition ALU_calculate_flags :: "alu \<Rightarrow> int \<Rightarrow> int \<Rightarrow> int \<Rightarrow> alu" where
  "ALU_calculate_flags self a b opcode =
     (let self1 = (if result self = 0
                   then self\<lparr>flags := (flags self)(''Z'' \<mapsto> 1)\<rparr> else self);
          self2 = (if result self1 AND 128 \<noteq> 0
                   then self1\<lparr>flags := (flags self1)(''N'' \<mapsto> 1)\<rparr> else self1)
      in if opcode = OP_ADD then ALU_calculate_overflow_add self2 a b
         else if opcode = OP_SUB then ALU_calculate_overflow_sub self2 a b
         else self2)"

text \<open>
  \<open>execute\<close>: mask the operands, reset the flags, dispatch on the opcode, derive the flags
  and return the result with a copy of the flags. The second component is the object after
  the call, also when the call raises: the \<open>raise\<close> comes after the flags were reset and
  before \<open>self.result\<close> is assigned.
\<close>

definition ALU_execute ::
  "alu \<Rightarrow> int \<Rightarrow> int \<Rightarrow> int \<Rightarrow> (error + int \<times> flagset) \<times> alu" where
  "ALU_execute self a0 b0 opcode =
     (let a = a0 AND 255;
          b = b0 AND 255;
          self1 = self\<lparr>flags := cleared_flags\<rparr>;
          dispatched =
            (if opcode = OP_ADD then
               (case ALU_add self1 a b of (r, self2) \<Rightarrow> Inr (self2\<lparr>result := r\<rparr>))
             else if opcode = OP_SUB then
               (case ALU_sub self1 a b of (r, self2) \<Rightarrow> Inr (self2\<lparr>result := r\<rparr>))
             else if opcode = OP_AND then Inr (self1\<lparr>result := ALU_and a b\<rparr>)
             else if opcode = OP_OR then Inr (self1\<lparr>result := ALU_or a b\<rparr>)
             else if opcode = OP_XOR then Inr (self1\<lparr>result := ALU_xor a b\<rparr>)
             else if opcode = OP_NOT then Inr (self1\<lparr>result := ALU_not a\<rparr>)
             else Inl (ValueError opcode))
      in case dispatched of
           Inl e \<Rightarrow> (Inl e, self1)
         | Inr self3 \<Rightarrow>
             (let self4 = ALU_calculate_flags self3 a b opcode
              in (Inr (result self4, flags self4), self4)))"

section \<open>Bit-level facts about 8-bit masking\<close>

lemma mask8_mod: "(a::int) AND 255 = a mod 256"
  using take_bit_eq_mask[of 8 a] by (simp add: take_bit_eq_mod mask_eq_exp_minus_1)

lemma mask8_id: "0 \<le> a \<Longrightarrow> a \<le> 255 \<Longrightarrow> (a::int) AND 255 = a"
  by (simp add: mask8_mod)

lemma bit_128: "bit (128::int) n \<longleftrightarrow> n = 7"
  using bit_exp_iff [where ?'a = int, of 7 n] by simp

lemma and128_cases: "(x::int) AND 128 = (if bit x 7 then 128 else 0)"
  by (rule bit_eqI) (auto simp: bit_and_iff bit_128)

lemma sign_bit: "drop_bit 7 ((x::int) AND 128) = (if bit x 7 then 1 else 0)"
  by (simp add: and128_cases drop_bit_eq_div)

lemma and_mask8_id: "a AND 255 = a \<Longrightarrow> b AND 255 = b \<Longrightarrow> ((a::int) AND b) AND 255 = a AND b"
  by (metis and.assoc)

lemma or_mask8_id: "a AND 255 = a \<Longrightarrow> b AND 255 = b \<Longrightarrow> ((a::int) OR b) AND 255 = a OR b"
  by (simp add: bit.conj_disj_distrib2)

lemma xor_mask8_id: "a AND 255 = a \<Longrightarrow> b AND 255 = b \<Longrightarrow> ((a::int) XOR b) AND 255 = a XOR b"
  by (simp add: bit.conj_xor_distrib2)

section \<open>What each method does to the object\<close>

lemma result_overflow_add: "result (ALU_calculate_overflow_add s a b) = result s"
  by (simp add: ALU_calculate_overflow_add_def Let_def)

lemma result_overflow_sub: "result (ALU_calculate_overflow_sub s a b) = result s"
  by (simp add: ALU_calculate_overflow_sub_def Let_def)

lemma flags_overflow_add:
  "flags (ALU_calculate_overflow_add s a b) =
     (if bit a 7 = bit b 7 \<and> bit (result s) 7 \<noteq> bit a 7
      then (flags s)(''V'' \<mapsto> 1) else flags s)"
  unfolding ALU_calculate_overflow_add_def Let_def sign_bit by simp

lemma flags_overflow_sub:
  "flags (ALU_calculate_overflow_sub s a b) =
     (if bit a 7 \<noteq> bit b 7 \<and> bit (result s) 7 \<noteq> bit a 7
      then (flags s)(''V'' \<mapsto> 1) else flags s)"
  unfolding ALU_calculate_overflow_sub_def Let_def sign_bit by simp

lemma result_calculate_flags: "result (ALU_calculate_flags s a b opcode) = result s"
  by (simp add: ALU_calculate_flags_def Let_def result_overflow_add result_overflow_sub)

lemma flags_calculate_flags_Z:
  "flags (ALU_calculate_flags s a b opcode) ''Z'' =
     (if result s = 0 then Some 1 else flags s ''Z'')"
  by (simp add: ALU_calculate_flags_def Let_def flags_overflow_add flags_overflow_sub)

lemma flags_calculate_flags_N:
  "flags (ALU_calculate_flags s a b opcode) ''N'' =
     (if bit (result s) 7 then Some 1 else flags s ''N'')"
  by (simp add: ALU_calculate_flags_def Let_def flags_overflow_add flags_overflow_sub and128_cases)

lemma flags_calculate_flags_C:
  "flags (ALU_calculate_flags s a b opcode) ''C'' = flags s ''C''"
  by (simp add: ALU_calculate_flags_def Let_def flags_overflow_add flags_overflow_sub)

lemma flags_calculate_flags_V:
  "flags (ALU_calculate_flags s a b opcode) ''V'' =
     (if opcode = OP_ADD \<and> bit a 7 = bit b 7 \<and> bit (result s) 7 \<noteq> bit a 7 then Some 1
      else if opcode = OP_SUB \<and> bit a 7 \<noteq> bit b 7 \<and> bit (result s) 7 \<noteq> bit a 7 then Some 1
      else flags s ''V'')"
  by (simp add: ALU_calculate_flags_def Let_def flags_overflow_add flags_overflow_sub
      result_overflow_add result_overflow_sub OP_ADD_def OP_SUB_def)

lemmas opcode_defs = OP_ADD_def OP_SUB_def OP_AND_def OP_OR_def OP_XOR_def OP_NOT_def

lemma execute_ADD:
  "ALU_execute self a b OP_ADD =
    (let a' = a AND 255; b' = b AND 255;
         s = ALU_calculate_flags
               \<lparr>result = (a' + b') AND 255,
                flags = (if a' + b' > 255 then cleared_flags(''C'' \<mapsto> 1) else cleared_flags)\<rparr>
               a' b' OP_ADD
     in (Inr (result s, flags s), s))"
  by (cases self) (simp add: ALU_execute_def ALU_add_def Let_def opcode_defs)

lemma execute_SUB:
  "ALU_execute self a b OP_SUB =
    (let a' = a AND 255; b' = b AND 255;
         s = ALU_calculate_flags
               \<lparr>result = (a' - b') AND 255,
                flags = (if a' - b' < 0 then cleared_flags(''C'' \<mapsto> 1) else cleared_flags)\<rparr>
               a' b' OP_SUB
     in (Inr (result s, flags s), s))"
  by (cases self) (simp add: ALU_execute_def ALU_sub_def Let_def opcode_defs)

lemma execute_AND:
  "ALU_execute self a b OP_AND =
    (let a' = a AND 255; b' = b AND 255;
         s = ALU_calculate_flags \<lparr>result = (a' AND b') AND 255, flags = cleared_flags\<rparr>
               a' b' OP_AND
     in (Inr (result s, flags s), s))"
  by (cases self) (simp add: ALU_execute_def ALU_and_def Let_def opcode_defs)

lemma execute_OR:
  "ALU_execute self a b OP_OR =
    (let a' = a AND 255; b' = b AND 255;
         s = ALU_calculate_flags \<lparr>result = (a' OR b') AND 255, flags = cleared_flags\<rparr>
               a' b' OP_OR
     in (Inr (result s, flags s), s))"
  by (cases self) (simp add: ALU_execute_def ALU_or_def Let_def opcode_defs)

lemma execute_XOR:
  "ALU_execute self a b OP_XOR =
    (let a' = a AND 255; b' = b AND 255;
         s = ALU_calculate_flags \<lparr>result = (a' XOR b') AND 255, flags = cleared_flags\<rparr>
               a' b' OP_XOR
     in (Inr (result s, flags s), s))"
  by (cases self) (simp add: ALU_execute_def ALU_xor_def Let_def opcode_defs)

lemma execute_NOT:
  "ALU_execute self a b OP_NOT =
    (let a' = a AND 255;
         s = ALU_calculate_flags \<lparr>result = (NOT a') AND 255, flags = cleared_flags\<rparr>
               a' (b AND 255) OP_NOT
     in (Inr (result s, flags s), s))"
  by (cases self) (simp add: ALU_execute_def ALU_not_def Let_def opcode_defs)

lemmas execute_valid =
  execute_ADD execute_SUB execute_AND execute_OR execute_XOR execute_NOT

lemmas flags_calculate_flags =
  flags_calculate_flags_Z flags_calculate_flags_N flags_calculate_flags_C
  flags_calculate_flags_V result_calculate_flags

lemma execute_invalid:
  assumes "opcode \<notin> {OP_ADD, OP_SUB, OP_AND, OP_OR, OP_XOR, OP_NOT}"
  shows "ALU_execute self a b opcode = (Inl (ValueError opcode), self\<lparr>flags := cleared_flags\<rparr>)"
  using assms by (simp add: ALU_execute_def Let_def)

section \<open>Properties of \<open>execute\<close>\<close>

text \<open>
  C1. For operands in [0, 255], after \<open>execute(a, b, ADD)\<close> the Overflow flag V is set
  iff bit 7 of \<open>a\<close> equals bit 7 of \<open>b\<close> and bit 7 of the returned result differs from
  bit 7 of \<open>a\<close>; after \<open>execute(a, b, SUB)\<close> it is set iff bit 7 of \<open>a\<close> differs from
  bit 7 of \<open>b\<close> and bit 7 of the returned result differs from bit 7 of \<open>a\<close>. In both
  cases V is 0 otherwise.
\<close>

theorem overflow_flag_add_sub:
  assumes "0 \<le> a" "a \<le> 255" "0 \<le> b" "b \<le> 255"
  shows "(\<exists>r fl. fst (ALU_execute self a b OP_ADD) = Inr (r, fl) \<and>
            fl ''V'' = Some (if bit a 7 = bit b 7 \<and> bit r 7 \<noteq> bit a 7 then 1 else 0)) \<and>
         (\<exists>r fl. fst (ALU_execute self a b OP_SUB) = Inr (r, fl) \<and>
            fl ''V'' = Some (if bit a 7 \<noteq> bit b 7 \<and> bit r 7 \<noteq> bit a 7 then 1 else 0))"
proof -
  have a: "a AND 255 = a" and b: "b AND 255 = b"
    using assms by (simp_all add: mask8_id)
  show ?thesis
    unfolding execute_ADD execute_SUB
    by (simp add: Let_def a b flags_calculate_flags cleared_flags_def opcode_defs)
qed

theorem overflow_flag_add_sub_witness:
  "(0::int) \<le> 100 \<and> (100::int) \<le> 255 \<and> (0::int) \<le> 206 \<and> (206::int) \<le> 255 \<and>
   (\<exists>r fl. fst (ALU_execute ALU_init 100 206 OP_ADD) = Inr (r, fl) \<and>
      fl ''V'' = Some (if bit (100::int) 7 = bit (206::int) 7 \<and> bit r 7 \<noteq> bit (100::int) 7
                       then 1 else 0)) \<and>
   (\<exists>r fl. fst (ALU_execute ALU_init 100 206 OP_SUB) = Inr (r, fl) \<and>
      fl ''V'' = Some (if bit (100::int) 7 \<noteq> bit (206::int) 7 \<and> bit r 7 \<noteq> bit (100::int) 7
                       then 1 else 0))"
proof -
  have h: "(0::int) \<le> 100" "(100::int) \<le> 255" "(0::int) \<le> 206" "(206::int) \<le> 255"
    by simp_all
  show ?thesis
    using h overflow_flag_add_sub [OF h, of ALU_init] by blast
qed

text \<open>
  C2. For operands in [0, 255], \<open>execute(a, b, ADD)\<close> returns \<open>(a + b) & 0xFF\<close>, and the
  Carry flag C is 1 iff \<open>a + b > 255\<close> (and 0 otherwise).
\<close>

theorem add_result_carry:
  assumes "0 \<le> a" "a \<le> 255" "0 \<le> b" "b \<le> 255"
  shows "\<exists>fl. fst (ALU_execute self a b OP_ADD) = Inr ((a + b) AND 255, fl) \<and>
            fl ''C'' = Some (if a + b > 255 then 1 else 0)"
proof -
  have a: "a AND 255 = a" and b: "b AND 255 = b"
    using assms by (simp_all add: mask8_id)
  show ?thesis
    by (simp add: execute_ADD Let_def a b flags_calculate_flags cleared_flags_def)
qed

theorem add_result_carry_witness:
  "(0::int) \<le> 200 \<and> (200::int) \<le> 255 \<and> (0::int) \<le> 100 \<and> (100::int) \<le> 255 \<and>
   (\<exists>fl. fst (ALU_execute ALU_init 200 100 OP_ADD) = Inr (44, fl) \<and> fl ''C'' = Some 1)"
proof -
  have h: "(0::int) \<le> 200" "(200::int) \<le> 255" "(0::int) \<le> 100" "(100::int) \<le> 255"
    by simp_all
  show ?thesis
    using h add_result_carry [OF h, of ALU_init] by simp
qed

text \<open>
  C3. For operands in [0, 255], \<open>execute(a, b, SUB)\<close> returns \<open>(a - b) & 0xFF\<close>, and the
  Carry flag C is 1 iff \<open>a < b\<close> (a borrow occurred), and 0 otherwise.
\<close>

theorem sub_result_carry:
  assumes "0 \<le> a" "a \<le> 255" "0 \<le> b" "b \<le> 255"
  shows "\<exists>fl. fst (ALU_execute self a b OP_SUB) = Inr ((a - b) AND 255, fl) \<and>
            fl ''C'' = Some (if a < b then 1 else 0)"
proof -
  have a: "a AND 255 = a" and b: "b AND 255 = b"
    using assms by (simp_all add: mask8_id)
  show ?thesis
    by (simp add: execute_SUB Let_def a b flags_calculate_flags cleared_flags_def)
qed

theorem sub_result_carry_witness:
  "(0::int) \<le> 5 \<and> (5::int) \<le> 255 \<and> (0::int) \<le> 10 \<and> (10::int) \<le> 255 \<and>
   (\<exists>fl. fst (ALU_execute ALU_init 5 10 OP_SUB) = Inr (251, fl) \<and> fl ''C'' = Some 1)"
proof -
  have h: "(0::int) \<le> 5" "(5::int) \<le> 255" "(0::int) \<le> 10" "(10::int) \<le> 255"
    by simp_all
  show ?thesis
    using h sub_result_carry [OF h, of ALU_init] by simp
qed

text \<open>
  C4. For operands in [0, 255], \<open>execute(a, b, AND)\<close> returns \<open>a & b\<close>,
  \<open>execute(a, b, OR)\<close> returns \<open>a | b\<close> and \<open>execute(a, b, XOR)\<close> returns \<open>a ^ b\<close>, each
  of which is its own 8-bit truncation; and for AND, OR, XOR and NOT the Carry flag C and
  the Overflow flag V are both 0.
\<close>

theorem logic_results_no_carry_overflow:
  assumes "0 \<le> a" "a \<le> 255" "0 \<le> b" "b \<le> 255"
  shows "(\<exists>fl. fst (ALU_execute self a b OP_AND) = Inr (a AND b, fl) \<and>
            fl ''C'' = Some 0 \<and> fl ''V'' = Some 0) \<and>
         (\<exists>fl. fst (ALU_execute self a b OP_OR) = Inr (a OR b, fl) \<and>
            fl ''C'' = Some 0 \<and> fl ''V'' = Some 0) \<and>
         (\<exists>fl. fst (ALU_execute self a b OP_XOR) = Inr (a XOR b, fl) \<and>
            fl ''C'' = Some 0 \<and> fl ''V'' = Some 0) \<and>
         (\<exists>r fl. fst (ALU_execute self a b OP_NOT) = Inr (r, fl) \<and>
            fl ''C'' = Some 0 \<and> fl ''V'' = Some 0) \<and>
         (a AND b) AND 255 = a AND b \<and> (a OR b) AND 255 = a OR b \<and>
         (a XOR b) AND 255 = a XOR b"
proof -
  have a: "a AND 255 = a" and b: "b AND 255 = b"
    using assms by (simp_all add: mask8_id)
  note m = and_mask8_id [OF a b] or_mask8_id [OF a b] xor_mask8_id [OF a b]
  show ?thesis
    unfolding execute_AND execute_OR execute_XOR execute_NOT
    by (simp add: Let_def a b m flags_calculate_flags cleared_flags_def opcode_defs)
qed

theorem logic_results_no_carry_overflow_witness:
  "(0::int) \<le> 172 \<and> (172::int) \<le> 255 \<and> (0::int) \<le> 240 \<and> (240::int) \<le> 255 \<and>
   (\<exists>fl. fst (ALU_execute ALU_init 172 240 OP_AND) = Inr (160, fl) \<and>
      fl ''C'' = Some 0 \<and> fl ''V'' = Some 0) \<and>
   (\<exists>fl. fst (ALU_execute ALU_init 172 240 OP_OR) = Inr (252, fl) \<and>
      fl ''C'' = Some 0 \<and> fl ''V'' = Some 0) \<and>
   (\<exists>fl. fst (ALU_execute ALU_init 172 240 OP_XOR) = Inr (92, fl) \<and>
      fl ''C'' = Some 0 \<and> fl ''V'' = Some 0) \<and>
   (\<exists>r fl. fst (ALU_execute ALU_init 172 240 OP_NOT) = Inr (r, fl) \<and>
      fl ''C'' = Some 0 \<and> fl ''V'' = Some 0)"
proof -
  have h: "(0::int) \<le> 172" "(172::int) \<le> 255" "(0::int) \<le> 240" "(240::int) \<le> 255"
    by simp_all
  show ?thesis
    using h logic_results_no_carry_overflow [OF h, of ALU_init] by simp
qed

text \<open>
  C5. For \<open>a\<close> in [0, 255] and any two integers \<open>b\<close>, \<open>b'\<close>, \<open>execute(a, b, NOT)\<close> returns
  the result \<open>(~a) & 0xFF\<close>, and the whole outcome of \<open>execute(a, b, NOT)\<close> (result, flags
  and the object afterwards) equals that of \<open>execute(a, b', NOT)\<close>: the second operand has
  no influence.
\<close>

theorem not_ignores_second_operand:
  assumes "0 \<le> a" "a \<le> 255"
  shows "ALU_execute self a b OP_NOT = ALU_execute self a b' OP_NOT \<and>
         (\<exists>fl. fst (ALU_execute self a b OP_NOT) = Inr ((NOT a) AND 255, fl))"
proof -
  have a: "a AND 255 = a"
    using assms by (simp add: mask8_id)
  show ?thesis
    unfolding execute_NOT
    by (simp add: Let_def a result_calculate_flags ALU_calculate_flags_def opcode_defs)
qed

theorem not_ignores_second_operand_witness:
  "(0::int) \<le> 255 \<and> (255::int) \<le> 255 \<and>
   ALU_execute ALU_init 255 0 OP_NOT = ALU_execute ALU_init 255 77 OP_NOT \<and>
   (\<exists>fl. fst (ALU_execute ALU_init 255 0 OP_NOT) = Inr (0, fl))"
proof -
  have h: "(0::int) \<le> 255" "(255::int) \<le> 255"
    by simp_all
  show ?thesis
    using h not_ignores_second_operand [OF h, of ALU_init 0 77] by auto
qed

text \<open>
  C6. For all integers \<open>a\<close>, \<open>b\<close> and each of the six valid opcodes, \<open>execute\<close> returns a
  result and flags with \<open>Z == (result == 0)\<close> and \<open>N == ((result & 0x80) != 0)\<close>.
\<close>

theorem zero_negative_flags:
  assumes "opcode \<in> {OP_ADD, OP_SUB, OP_AND, OP_OR, OP_XOR, OP_NOT}"
  shows "\<exists>r fl. fst (ALU_execute self a b opcode) = Inr (r, fl) \<and>
           fl ''Z'' = Some (if r = 0 then 1 else 0) \<and>
           fl ''N'' = Some (if r AND 128 \<noteq> 0 then 1 else 0)"
proof -
  let ?P = "\<lambda>opc. \<exists>r fl. fst (ALU_execute self a b opc) = Inr (r, fl) \<and>
           fl ''Z'' = Some (if r = 0 then 1 else 0) \<and>
           fl ''N'' = Some (if r AND 128 \<noteq> 0 then 1 else 0)"
  note facts = Let_def flags_calculate_flags and128_cases cleared_flags_def
  have "?P OP_ADD" unfolding execute_ADD by (simp add: facts)
  moreover have "?P OP_SUB" unfolding execute_SUB by (simp add: facts)
  moreover have "?P OP_AND" unfolding execute_AND by (simp add: facts)
  moreover have "?P OP_OR" unfolding execute_OR by (simp add: facts)
  moreover have "?P OP_XOR" unfolding execute_XOR by (simp add: facts)
  moreover have "?P OP_NOT" unfolding execute_NOT by (simp add: facts)
  ultimately show ?thesis using assms by blast
qed

theorem zero_negative_flags_witness:
  "OP_SUB \<in> {OP_ADD, OP_SUB, OP_AND, OP_OR, OP_XOR, OP_NOT} \<and>
   (\<exists>r fl. fst (ALU_execute ALU_init 10 10 OP_SUB) = Inr (r, fl) \<and>
      fl ''Z'' = Some (if r = 0 then 1 else 0) \<and>
      fl ''N'' = Some (if r AND 128 \<noteq> 0 then 1 else 0))"
proof -
  have h: "OP_SUB \<in> {OP_ADD, OP_SUB, OP_AND, OP_OR, OP_XOR, OP_NOT}"
    by simp
  show ?thesis
    using h zero_negative_flags [OF h, of ALU_init 10 10] by blast
qed

text \<open>
  C7. For all integers \<open>a\<close>, \<open>b\<close> (also negative ones and ones above 255) and every valid
  opcode, \<open>execute(a, b, opcode)\<close> returns a result and flags (it does not raise), and its
  outcome is exactly that of \<open>execute(a & 0xFF, b & 0xFF, opcode)\<close>: out-of-range operands
  are masked to their low 8 bits, never rejected.
\<close>

theorem operands_masked:
  assumes "opcode \<in> {OP_ADD, OP_SUB, OP_AND, OP_OR, OP_XOR, OP_NOT}"
  shows "(\<exists>r fl. fst (ALU_execute self a b opcode) = Inr (r, fl)) \<and>
         ALU_execute self a b opcode = ALU_execute self (a AND 255) (b AND 255) opcode"
proof -
  let ?R = "\<lambda>opc. \<exists>r fl. fst (ALU_execute self a b opc) = Inr (r, fl)"
  have "?R OP_ADD" unfolding execute_ADD by (simp add: Let_def)
  moreover have "?R OP_SUB" unfolding execute_SUB by (simp add: Let_def)
  moreover have "?R OP_AND" unfolding execute_AND by (simp add: Let_def)
  moreover have "?R OP_OR" unfolding execute_OR by (simp add: Let_def)
  moreover have "?R OP_XOR" unfolding execute_XOR by (simp add: Let_def)
  moreover have "?R OP_NOT" unfolding execute_NOT by (simp add: Let_def)
  ultimately have returns: "?R opcode"
    using assms by blast
  have masked: "ALU_execute self a b opcode =
      ALU_execute self (a AND 255) (b AND 255) opcode"
    using assms by (auto simp add: execute_valid)
  from returns masked show ?thesis ..
qed

theorem operands_masked_witness:
  "OP_ADD \<in> {OP_ADD, OP_SUB, OP_AND, OP_OR, OP_XOR, OP_NOT} \<and>
   (\<exists>r fl. fst (ALU_execute ALU_init 300 (- 1) OP_ADD) = Inr (r, fl)) \<and>
   ALU_execute ALU_init 300 (- 1) OP_ADD = ALU_execute ALU_init 44 255 OP_ADD"
proof -
  have h: "OP_ADD \<in> {OP_ADD, OP_SUB, OP_AND, OP_OR, OP_XOR, OP_NOT}"
    by simp
  show ?thesis
    using h operands_masked [OF h, of ALU_init 300 "- 1"] by auto
qed

text \<open>
  C8. For a valid opcode, the outcome of \<open>execute\<close> (the returned result and flags, and the
  object afterwards) does not depend on the object's result and flags before the call; in
  particular a second call with the same inputs, on the object the first call left behind,
  returns the same result and flags.
\<close>

theorem execute_state_independent:
  assumes "opcode \<in> {OP_ADD, OP_SUB, OP_AND, OP_OR, OP_XOR, OP_NOT}"
  shows "ALU_execute self a b opcode = ALU_execute self' a b opcode \<and>
         fst (ALU_execute (snd (ALU_execute self a b opcode)) a b opcode) =
           fst (ALU_execute self a b opcode)"
  using assms by (auto simp add: execute_valid)

theorem execute_state_independent_witness:
  "OP_XOR \<in> {OP_ADD, OP_SUB, OP_AND, OP_OR, OP_XOR, OP_NOT} \<and>
   ALU_execute ALU_init 172 240 OP_XOR =
     ALU_execute \<lparr>result = 44, flags = cleared_flags(''C'' \<mapsto> 1)\<rparr> 172 240 OP_XOR \<and>
   fst (ALU_execute (snd (ALU_execute ALU_init 172 240 OP_XOR)) 172 240 OP_XOR) =
     fst (ALU_execute ALU_init 172 240 OP_XOR)"
proof -
  have h: "OP_XOR \<in> {OP_ADD, OP_SUB, OP_AND, OP_OR, OP_XOR, OP_NOT}"
    by simp
  show ?thesis
    using h execute_state_independent
      [OF h, of ALU_init 172 240 "\<lparr>result = 44, flags = cleared_flags(''C'' \<mapsto> 1)\<rparr>"]
    by blast
qed

text \<open>
  C9. For every opcode outside the six defined ones (0 to 5) and all operands, \<open>execute\<close>
  raises the invalid-opcode error (a \<open>ValueError\<close> in the source) instead of returning.
\<close>

theorem invalid_opcode_raises:
  assumes "opcode \<notin> {OP_ADD, OP_SUB, OP_AND, OP_OR, OP_XOR, OP_NOT}"
  shows "fst (ALU_execute self a b opcode) = Inl (ValueError opcode)"
  using assms by (simp add: execute_invalid)

theorem invalid_opcode_raises_witness:
  "(7::int) \<notin> {OP_ADD, OP_SUB, OP_AND, OP_OR, OP_XOR, OP_NOT} \<and>
   fst (ALU_execute ALU_init 1 2 7) = Inl (ValueError 7)"
proof -
  have h: "(7::int) \<notin> {OP_ADD, OP_SUB, OP_AND, OP_OR, OP_XOR, OP_NOT}"
    by (simp add: opcode_defs)
  show ?thesis
    using h invalid_opcode_raises [OF h, of ALU_init 1 2] by blast
qed

text \<open>
  C10. When \<open>execute\<close> raises on an invalid opcode, the object is left half-updated: its
  \<open>result\<close> attribute still holds the value from before the call, while its flags have
  already been reset to all zero.
\<close>

theorem invalid_opcode_state:
  assumes "opcode \<notin> {OP_ADD, OP_SUB, OP_AND, OP_OR, OP_XOR, OP_NOT}"
  shows "fst (ALU_execute self a b opcode) = Inl (ValueError opcode) \<and>
         result (snd (ALU_execute self a b opcode)) = result self \<and>
         flags (snd (ALU_execute self a b opcode)) = cleared_flags"
  using assms by (simp add: execute_invalid)

theorem invalid_opcode_state_witness:
  "(7::int) \<notin> {OP_ADD, OP_SUB, OP_AND, OP_OR, OP_XOR, OP_NOT} \<and>
   fst (ALU_execute \<lparr>result = 44, flags = cleared_flags(''C'' \<mapsto> 1)\<rparr> 1 2 7) =
     Inl (ValueError 7) \<and>
   result (snd (ALU_execute \<lparr>result = 44, flags = cleared_flags(''C'' \<mapsto> 1)\<rparr> 1 2 7)) = 44 \<and>
   flags (snd (ALU_execute \<lparr>result = 44, flags = cleared_flags(''C'' \<mapsto> 1)\<rparr> 1 2 7)) ''C'' =
     Some 0"
proof -
  have h: "(7::int) \<notin> {OP_ADD, OP_SUB, OP_AND, OP_OR, OP_XOR, OP_NOT}"
    by (simp add: opcode_defs)
  show ?thesis
    using h invalid_opcode_state
      [OF h, of "\<lparr>result = 44, flags = cleared_flags(''C'' \<mapsto> 1)\<rparr>" 1 2]
    by (simp add: cleared_flags_def)
qed

end
